theory Spec2Isabelle
  imports Main "HOL-Library.Product_Lexorder" "HOL-Library.Multiset"
begin

section \<open>Data model\<close>

text \<open>
  The two services share one datastore.  Its tables are lists of rows; a row is a
  record with the columns the handlers read or write.  Timestamps are integers
  (milliseconds), identifiers of queue rows are natural numbers, user identifiers and
  push tokens are strings.  The column \<open>status\<close> of \<open>notification_queue\<close> holds one of the
  strings \<open>'pending'\<close>, \<open>'processing'\<close>, \<open>'sent'\<close>; \<open>priority\<close> is a number, a higher
  one coming first; \<open>data\<close> is an optional mapping.
\<close>

datatype status = Pending | Processing | Sent

record queue_entry =
  q_id :: nat
  q_user_id :: string
  q_title :: string
  q_body :: string
  q_data :: "(string \<times> string) list option"
  q_priority :: int
  q_category :: string
  q_status :: status
  q_scheduled_for :: int
  q_sent_at :: "int option"

record device_token =
  t_user_id :: string
  t_expo_push_token :: string
  t_device_name :: string
  t_is_active :: bool

record consultation =
  c_id :: nat
  c_user_id :: string
  c_consultant_id :: "string option"
  c_chatwoot_conversation_id :: string

record profile =
  p_id :: string
  p_role :: string

record consultation_message =
  cm_id :: nat
  cm_consultation_id :: nat
  cm_user_id :: string
  cm_content :: "string option"
  cm_message_type :: string
  cm_is_read :: bool

record database =
  notification_queue :: "queue_entry list"
  profile_push_tokens :: "device_token list"
  consultations :: "consultation list"
  profiles :: "profile list"
  consultation_messages :: "consultation_message list"

text \<open>The value of the \<open>priority\<close> field of a push message: a string or a number.\<close>

datatype priority_field = PString string | PNumber int

record push_message =
  pm_to :: string
  pm_sound :: string
  pm_title :: string
  pm_body :: string
  pm_data :: "(string \<times> string) list"
  pm_priority :: priority_field
  pm_channelId :: string

text \<open>
  A ticket of the push gateway: \<open>ticket.status\<close> and \<open>ticket.details?.error\<close> (absent
  when the ticket has no \<open>details\<close> or the details carry no \<open>error\<close>).
\<close>

record ticket =
  tk_status :: string
  tk_details_error :: "string option"

text \<open>
  What one call of the gateway can yield: \<open>fetch\<close> rejects; the response is not ok
  (status and text); the response is not ok and reading its text rejects;
  \<open>response.json()\<close> rejects; or a parsed body whose \<open>data\<close> is absent or an array of
  tickets.  The strings of the rejections are the messages of the errors thrown.
\<close>

datatype gateway_reply =
    NetworkError string
  | HttpError nat string
  | UnreadableError nat string
  | MalformedBody string
  | Reply "ticket list option"

text \<open>A response: the HTTP status and the keys of the JSON body, in the order written.\<close>

datatype json = JBool bool | JNum int | JStr string

record response =
  status_code :: nat
  body :: "(string \<times> json) list"

record outcome =
  out_response :: response
  out_db :: database
  out_pushes :: "push_message list list"

definition respond :: "nat \<Rightarrow> (string \<times> json) list \<Rightarrow> database \<Rightarrow> push_message list list \<Rightarrow> outcome" where
  "respond code kvs d sent_chunks =
     \<lparr>out_response = \<lparr>status_code = code, body = kvs\<rparr>, out_db = d, out_pushes = sent_chunks\<rparr>"

definition has_key :: "string \<Rightarrow> response \<Rightarrow> bool" where
  "has_key k r = (map_of (body r) k \<noteq> None)"

section \<open>Queue processor (process-queue.js)\<close>

definition BATCH_SIZE :: nat where
  "BATCH_SIZE = 500"

definition CHUNK_SIZE :: nat where
  "CHUNK_SIZE = 100"

subsection \<open>The queries and updates the handler issues\<close>

text \<open>
  \<open>.eq('status','pending').lte('scheduled_for', now).order('priority', desc)
  .order('scheduled_for', asc).limit(BATCH_SIZE)\<close>: the rows that pass the two filters,
  sorted by the key (\<open>-priority\<close>, \<open>scheduled_for\<close>) in lexicographic order, cut at the
  limit.  The sort is stable, which fixes one of the orders the datastore may choose among
  rows with equal keys.
\<close>

definition claim_key :: "queue_entry \<Rightarrow> int \<times> int" where
  "claim_key n = (- q_priority n, q_scheduled_for n)"

definition select_pending :: "int \<Rightarrow> queue_entry list \<Rightarrow> queue_entry list" where
  "select_pending now tbl =
     take BATCH_SIZE
       (sort_key claim_key
          (filter (\<lambda>n. q_status n = Pending \<and> q_scheduled_for n \<le> now) tbl))"

text \<open>\<open>.update({ status: 'processing' }).in('id', ids)\<close>\<close>

definition update_processing :: "nat list \<Rightarrow> queue_entry list \<Rightarrow> queue_entry list" where
  "update_processing ids tbl =
     map (\<lambda>n. if q_id n \<in> set ids then n\<lparr>q_status := Processing\<rparr> else n) tbl"

text \<open>\<open>.update({ status: 'sent', sent_at: now }).in('id', ids)\<close>\<close>

definition update_sent :: "int \<Rightarrow> nat list \<Rightarrow> queue_entry list \<Rightarrow> queue_entry list" where
  "update_sent now ids tbl =
     map (\<lambda>n. if q_id n \<in> set ids then n\<lparr>q_status := Sent, q_sent_at := Some now\<rparr> else n) tbl"

text \<open>\<open>.in('user_id', userIds).eq('is_active', true)\<close>\<close>

definition select_active_tokens :: "string list \<Rightarrow> device_token list \<Rightarrow> device_token list" where
  "select_active_tokens userIds tbl =
     filter (\<lambda>t. t_user_id t \<in> set userIds \<and> t_is_active t) tbl"

text \<open>\<open>.update({ is_active: false }).in('expo_push_token', tokens)\<close>\<close>

definition deactivate_tokens :: "string list \<Rightarrow> device_token list \<Rightarrow> device_token list" where
  "deactivate_tokens toks tbl =
     map (\<lambda>t. if t_expo_push_token t \<in> set toks then t\<lparr>t_is_active := False\<rparr> else t) tbl"

subsection \<open>Grouping and expansion\<close>

text \<open>
  \<open>byUser\<close> and \<open>tokensByUser\<close> are objects used as dictionaries from a user id to an
  array; \<open>Object.entries\<close> lists the keys in the order of their first insertion (user ids
  are UUID-like strings, not array indices).  \<open>dict_push k v d\<close> is
  \<open>if (!d[k]) d[k] = []; d[k].push(v)\<close>.
\<close>

fun dict_push :: "'k \<Rightarrow> 'v \<Rightarrow> ('k \<times> 'v list) list \<Rightarrow> ('k \<times> 'v list) list" where
  "dict_push k v [] = [(k, [v])]"
| "dict_push k v ((k', vs) # rest) =
     (if k = k' then (k', vs @ [v]) # rest else (k', vs) # dict_push k v rest)"

definition dict_get :: "('k \<times> 'v list) list \<Rightarrow> 'k \<Rightarrow> 'v list" where
  "dict_get d k = (case map_of d k of None \<Rightarrow> [] | Some vs \<Rightarrow> vs)"

definition group_by_user :: "queue_entry list \<Rightarrow> (string \<times> queue_entry list) list" where
  "group_by_user notifications =
     foldl (\<lambda>byUser notif. dict_push (q_user_id notif) notif byUser) [] notifications"

definition index_tokens :: "device_token list \<Rightarrow> (string \<times> string list) list" where
  "index_tokens tokens =
     foldl (\<lambda>m t. dict_push (t_user_id t) (t_expo_push_token t) m) [] tokens"

definition make_message :: "queue_entry \<Rightarrow> string \<Rightarrow> push_message" where
  "make_message notification token =
     \<lparr>pm_to = token,
      pm_sound = ''default'',
      pm_title = q_title notification,
      pm_body = q_body notification,
      pm_data = (case q_data notification of None \<Rightarrow> [] | Some d \<Rightarrow> d),
      pm_priority = (if q_priority notification = 0 then PString ''default''
                     else PNumber (q_priority notification)),
      pm_channelId = q_category notification\<rparr>"

definition user_messages :: "(string \<times> string list) list \<Rightarrow> string \<times> queue_entry list \<Rightarrow> push_message list" where
  "user_messages tokensByUser entry =
     (let userTokens = dict_get tokensByUser (fst entry)
      in if userTokens = [] then []
         else concat (map (\<lambda>notification. map (make_message notification) userTokens) (snd entry)))"

definition build_messages :: "(string \<times> queue_entry list) list \<Rightarrow> (string \<times> string list) list \<Rightarrow> push_message list" where
  "build_messages byUser tokensByUser = concat (map (user_messages tokensByUser) byUser)"

subsection \<open>Delivery in chunks\<close>

definition is_device_not_registered :: "ticket \<Rightarrow> bool" where
  "is_device_not_registered t =
     (tk_status t = ''error'' \<and> tk_details_error t = Some ''DeviceNotRegistered'')"

text \<open>\<open>invalidTokens\<close> is a \<open>Set\<close>: insertion order, no duplicates.\<close>

definition set_add :: "'a \<Rightarrow> 'a list \<Rightarrow> 'a list" where
  "set_add x xs = (if x \<in> set xs then xs else xs @ [x])"

text \<open>
  The loop over \<open>result.data\<close>.  A ticket that reports an unregistered device at an index
  beyond the chunk makes \<open>chunk[j].to\<close> throw; the \<open>catch\<close> around the chunk swallows the
  exception and the rest of the tickets is not looked at.
\<close>

function collect_invalid :: "ticket list \<Rightarrow> push_message list \<Rightarrow> nat \<Rightarrow> string list \<Rightarrow> string list" where
  "collect_invalid tickets chunk j invalid =
     (if j < length tickets then
        (if is_device_not_registered (tickets ! j) then
           (if j < length chunk
            then collect_invalid tickets chunk (j + 1) (set_add (pm_to (chunk ! j)) invalid)
            else invalid)
         else collect_invalid tickets chunk (j + 1) invalid)
      else invalid)"
  by pat_completeness auto
termination
  by (relation "measure (\<lambda>(tickets, chunk, j, invalid). length tickets - j)") auto

declare collect_invalid.simps [simp del]

record delivery =
  totalSent :: nat
  invalidTokens :: "string list"
  gateway_calls :: "push_message list list"

definition send_chunk :: "gateway_reply \<Rightarrow> push_message list \<Rightarrow> delivery \<Rightarrow> delivery" where
  "send_chunk reply chunk st =
     (let st1 = st\<lparr>gateway_calls := gateway_calls st @ [chunk]\<rparr>
      in case reply of
           NetworkError e \<Rightarrow> st1
         | HttpError code txt \<Rightarrow> st1
         | UnreadableError code e \<Rightarrow> st1
         | MalformedBody e \<Rightarrow> st1
         | Reply data \<Rightarrow>
             (let st2 = st1\<lparr>totalSent := totalSent st1 + length chunk\<rparr>
              in case data of
                   None \<Rightarrow> st2
                 | Some tickets \<Rightarrow>
                     st2\<lparr>invalidTokens := collect_invalid tickets chunk 0 (invalidTokens st2)\<rparr>))"

text \<open>
  \<open>for (let i = 0; i < messages.length; i += CHUNK_SIZE)\<close>; the reply of the gateway to
  the chunk number \<open>Math.floor(i / CHUNK_SIZE)\<close> is \<open>gw (i div CHUNK_SIZE)\<close>.
\<close>

function deliver :: "(nat \<Rightarrow> gateway_reply) \<Rightarrow> push_message list \<Rightarrow> nat \<Rightarrow> delivery \<Rightarrow> delivery" where
  "deliver gw messages i st =
     (if i < length messages
      then deliver gw messages (i + CHUNK_SIZE)
             (send_chunk (gw (i div CHUNK_SIZE)) (take CHUNK_SIZE (drop i messages)) st)
      else st)"
  by pat_completeness auto
termination
  by (relation "measure (\<lambda>(gw, messages, i, st). length messages - i)")
     (auto simp: CHUNK_SIZE_def)

declare deliver.simps [simp del]

subsection \<open>The handler\<close>

text \<open>
  What the handler does not decide: the clock, whether a call of the datastore fails (and
  with which message), and the replies of the gateway.  A failed update leaves the table
  as it was.  The client of the datastore reports a failure in the \<open>error\<close> field of its
  answer and does not throw, and the exceptions of the delivery are caught inside the loop:
  on rows of the types above nothing reaches the \<open>catch\<close> of this handler (lines 291 to
  298), which is therefore not part of the model.
\<close>

datatype pq_call =
  FetchPending | MarkProcessing | FetchTokens | MarkSentEarly | DeactivateTokens | MarkSent

record pq_env =
  pq_start :: int
  pq_query_now :: int
  pq_sent_now :: int
  pq_end :: int
  pq_db_error :: "pq_call \<Rightarrow> string option"
  pq_gateway :: "nat \<Rightarrow> gateway_reply"

definition set_queue :: "queue_entry list \<Rightarrow> database \<Rightarrow> database" where
  "set_queue tbl d = d\<lparr>notification_queue := tbl\<rparr>"

definition set_tokens :: "device_token list \<Rightarrow> database \<Rightarrow> database" where
  "set_tokens tbl d = d\<lparr>profile_push_tokens := tbl\<rparr>"

definition initial_delivery :: delivery where
  "initial_delivery = \<lparr>totalSent = 0, invalidTokens = [], gateway_calls = []\<rparr>"

definition prepare_messages :: "queue_entry list \<Rightarrow> device_token list \<Rightarrow> push_message list" where
  "prepare_messages notifications tbl =
     (let byUser = group_by_user notifications;
          userIds = map fst byUser;
          tokens = select_active_tokens userIds tbl;
          tokensByUser = index_tokens tokens
      in build_messages byUser tokensByUser)"

text \<open>Steps 6 to 8 and the final response (lines 206 to 289).\<close>

definition pq_deliver_and_finish :: "pq_env \<Rightarrow> queue_entry list \<Rightarrow> push_message list \<Rightarrow> database \<Rightarrow> outcome" where
  "pq_deliver_and_finish env notifications messages d1 =
     (let notificationIds = map q_id notifications;
          st = deliver (pq_gateway env) messages 0 initial_delivery;
          d2 = (if invalidTokens st \<noteq> [] \<and> pq_db_error env DeactivateTokens = None
                then set_tokens (deactivate_tokens (invalidTokens st) (profile_push_tokens d1)) d1
                else d1);
          d3 = (if pq_db_error env MarkSent = None
                then set_queue (update_sent (pq_sent_now env) notificationIds (notification_queue d2)) d2
                else d2)
      in respond 200
           [(''ok'', JBool True),
            (''processed'', JNum (int (length notifications))),
            (''sent'', JNum (int (totalSent st))),
            (''invalidTokens'', JNum (int (length (invalidTokens st)))),
            (''duration_ms'', JNum (pq_end env - pq_start env))]
           d3 (gateway_calls st))"

text \<open>Step 5 and the return when there is nothing to send (lines 162 to 204).\<close>

definition pq_after_tokens :: "pq_env \<Rightarrow> queue_entry list \<Rightarrow> database \<Rightarrow> outcome" where
  "pq_after_tokens env notifications d1 =
     (let notificationIds = map q_id notifications;
          messages = prepare_messages notifications (profile_push_tokens d1)
      in if messages = []
         then respond 200
                [(''ok'', JBool True),
                 (''processed'', JNum (int (length notifications))),
                 (''sent'', JNum 0)]
                (if pq_db_error env MarkSentEarly = None
                 then set_queue (update_sent (pq_sent_now env) notificationIds
                                   (notification_queue d1)) d1
                 else d1)
                []
         else pq_deliver_and_finish env notifications messages d1)"

text \<open>The handler from the answer of the first query on (lines 101 to 289).\<close>

definition pq_after_fetch :: "pq_env \<Rightarrow> queue_entry list \<Rightarrow> database \<Rightarrow> outcome" where
  "pq_after_fetch env notifications d =
     (if notifications = []
      then respond 200 [(''ok'', JBool True), (''processed'', JNum 0)] d []
      else
        (case pq_db_error env MarkProcessing of
           Some msg \<Rightarrow> respond 500 [(''error'', JStr msg)] d []
         | None \<Rightarrow>
             (let d1 = set_queue (update_processing (map q_id notifications) (notification_queue d)) d
              in (case pq_db_error env FetchTokens of
                    Some msg \<Rightarrow> respond 500 [(''error'', JStr msg)] d1 []
                  | None \<Rightarrow> pq_after_tokens env notifications d1))))"

definition process_queue :: "pq_env \<Rightarrow> database \<Rightarrow> outcome" where
  "process_queue env d =
     (case pq_db_error env FetchPending of
        Some msg \<Rightarrow> respond 500 [(''error'', JStr msg)] d []
      | None \<Rightarrow> pq_after_fetch env (select_pending (pq_query_now env) (notification_queue d)) d)"

section \<open>Webhook receiver, push variant (chatwoot-webhook.js)\<close>

text \<open>
  The fields the handler takes from the request body.  \<open>wb_sender_type\<close> is
  \<open>sender?.type\<close> and \<open>wb_contact_identifier\<close> is \<open>contact?.identifier\<close>: absent when
  the object or the field is.
\<close>

record wh_body =
  wb_event :: "string option"
  wb_message_type :: "string option"
  wb_content :: "string option"
  wb_sender_type :: "string option"
  wb_contact_identifier :: "string option"

text \<open>
  The environment of one request: the clock at entry and at the end, the timestamp put
  into the message data, the error of the token query if it fails, the reply of the
  gateway, and for each ticket index whether the update that deactivates its token fails
  (the handler does not look at the result of that update).
\<close>

record wh_env =
  wh_start :: int
  wh_end :: int
  wh_iso_now :: string
  wh_tokens_error :: "string option"
  wh_gateway :: gateway_reply
  wh_deactivate_fails :: "nat \<Rightarrow> bool"

text \<open>One message per token (lines 76 to 88); the title is written without its emoji.\<close>

definition chat_message :: "wh_env \<Rightarrow> wh_body \<Rightarrow> string \<Rightarrow> device_token \<Rightarrow> push_message" where
  "chat_message env b userId t =
     \<lparr>pm_to = t_expo_push_token t,
      pm_sound = ''default'',
      pm_title = ''Nuevo mensaje'',
      pm_body = (case wb_content b of
                   None \<Rightarrow> ''Tienes un nuevo mensaje en el chat''
                 | Some c \<Rightarrow> if c = [] then ''Tienes un nuevo mensaje en el chat'' else c),
      pm_data = [(''type'', ''chat_message''), (''userId'', userId), (''timestamp'', wh_iso_now env)],
      pm_priority = PString ''high'',
      pm_channelId = ''chat''\<rparr>"

definition undefined_to :: string where
  "undefined_to = ''Cannot read properties of undefined (reading 'to')''"

text \<open>
  The loop over \<open>result.data\<close> (lines 113 to 125): one update per ticket that reports an
  unregistered device.  Such a ticket at an index beyond the messages makes
  \<open>messages[i].to\<close> throw; the updates made so far stay.
\<close>

function wh_reconcile :: "(nat \<Rightarrow> bool) \<Rightarrow> ticket list \<Rightarrow> push_message list \<Rightarrow> nat \<Rightarrow> device_token list \<Rightarrow> device_token list \<times> string option" where
  "wh_reconcile fails tickets messages i tbl =
     (if i < length tickets then
        (if is_device_not_registered (tickets ! i) then
           (if i < length messages
            then wh_reconcile fails tickets messages (i + 1)
                   (if fails i then tbl else deactivate_tokens [pm_to (messages ! i)] tbl)
            else (tbl, Some undefined_to))
         else wh_reconcile fails tickets messages (i + 1) tbl)
      else (tbl, None))"
  by pat_completeness auto
termination
  by (relation "measure (\<lambda>(fails, tickets, messages, i, tbl). length tickets - i)") auto

declare wh_reconcile.simps [simp del]

text \<open>The \<open>catch\<close> of the handler (lines 137 to 144).\<close>

definition wh_fatal :: "wh_env \<Rightarrow> string \<Rightarrow> database \<Rightarrow> push_message list list \<Rightarrow> outcome" where
  "wh_fatal env msg d sent_chunks =
     respond 500 [(''error'', JStr msg), (''duration_ms'', JNum (wh_end env - wh_start env))]
       d sent_chunks"

text \<open>The final response (lines 128 to 135).\<close>

definition wh_done :: "wh_env \<Rightarrow> device_token list \<Rightarrow> database \<Rightarrow> push_message list list \<Rightarrow> outcome" where
  "wh_done env tokens d sent_chunks =
     respond 200
       [(''ok'', JBool True),
        (''sent'', JNum (int (length tokens))),
        (''duration_ms'', JNum (wh_end env - wh_start env))]
       d sent_chunks"

text \<open>Lines 75 to 135: the messages, the call of the gateway, the tickets.\<close>

definition wh_send :: "wh_env \<Rightarrow> wh_body \<Rightarrow> string \<Rightarrow> device_token list \<Rightarrow> database \<Rightarrow> outcome" where
  "wh_send env b userId tokens d =
     (let messages = map (chat_message env b userId) tokens
      in case wh_gateway env of
           NetworkError e \<Rightarrow> wh_fatal env e d [messages]
         | HttpError code txt \<Rightarrow>
             respond 500 [(''error'', JStr ''Expo API error''), (''details'', JStr txt)] d [messages]
         | UnreadableError code e \<Rightarrow> wh_fatal env e d [messages]
         | MalformedBody e \<Rightarrow> wh_fatal env e d [messages]
         | Reply data \<Rightarrow>
             (case data of
                None \<Rightarrow> wh_done env tokens d [messages]
              | Some tickets \<Rightarrow>
                  (case wh_reconcile (wh_deactivate_fails env) tickets messages 0
                          (profile_push_tokens d) of
                     (tbl, Some e) \<Rightarrow> wh_fatal env e (set_tokens tbl d) [messages]
                   | (tbl, None) \<Rightarrow> wh_done env tokens (set_tokens tbl d) [messages])))"

definition chatwoot_webhook :: "wh_env \<Rightarrow> wh_body \<Rightarrow> database \<Rightarrow> outcome" where
  "chatwoot_webhook env b d =
     (if wb_event b \<noteq> Some ''message_created'' \<or> wb_message_type b \<noteq> Some ''incoming''
      then respond 200 [(''ok'', JBool True), (''message'', JStr ''Event ignored'')] d []
      else if wb_sender_type b \<noteq> Some ''User''
      then respond 200 [(''ok'', JBool True), (''message'', JStr ''Not from user'')] d []
      else
        (case wb_contact_identifier b of
           None \<Rightarrow> respond 400 [(''error'', JStr ''Missing user identifier'')] d []
         | Some userId \<Rightarrow>
             if userId = []
             then respond 400 [(''error'', JStr ''Missing user identifier'')] d []
             else
               (case wh_tokens_error env of
                  Some msg \<Rightarrow> respond 500 [(''error'', JStr msg)] d []
                | None \<Rightarrow>
                    (let tokens = select_active_tokens [userId] (profile_push_tokens d)
                     in if tokens = []
                        then respond 200
                               [(''ok'', JBool True), (''message'', JStr ''No active tokens'')] d []
                        else wh_send env b userId tokens d))))"

section \<open>Webhook receiver, consultation variant (the handler that saves messages)\<close>

record tk_message =
  m_message_type :: "string option"
  m_sender_type :: "string option"
  m_content :: "string option"

record tk_webhook =
  w_event :: "string option"
  w_message :: "tk_message option"
  w_conversation_id :: "nat option"

record tk_request =
  r_method :: string
  r_body :: tk_webhook

text \<open>
  The environment: whether the lookup of the consultation and of the fallback profile
  fail, the error of the insert if it fails, and the id the datastore gives the new row.
\<close>

record tk_env =
  tk_consultation_fails :: bool
  tk_admin_fails :: bool
  tk_insert_error :: "string option"
  tk_new_id :: nat

text \<open>\<open>conversation.id.toString()\<close> for a numeric id.\<close>

definition digit :: "nat \<Rightarrow> char" where
  "digit k = ''0123456789'' ! k"

fun decimal :: "nat \<Rightarrow> string" where
  "decimal n =
     (if n < 10 then [digit n]
      else decimal (n div 10) @ [digit (n mod 10)])"

declare decimal.simps [simp del]

definition tk_internal_error :: "string \<Rightarrow> database \<Rightarrow> outcome" where
  "tk_internal_error msg d =
     respond 500 [(''error'', JStr ''Internal server error''), (''details'', JStr msg)] d []"

text \<open>
  \<open>.eq('chatwoot_conversation_id', key).single()\<close>: an error unless exactly one row
  matches.
\<close>

definition find_consultation :: "tk_env \<Rightarrow> string \<Rightarrow> consultation list \<Rightarrow> consultation option" where
  "find_consultation env key tbl =
     (if tk_consultation_fails env then None
      else case filter (\<lambda>c. c_chatwoot_conversation_id c = key) tbl of
             [c] \<Rightarrow> Some c
           | _ \<Rightarrow> None)"

text \<open>\<open>.in('role', ['admin', 'author']).limit(1).single()\<close>; the first row in table order.\<close>

definition find_admin :: "tk_env \<Rightarrow> profile list \<Rightarrow> profile option" where
  "find_admin env tbl =
     (if tk_admin_fails env then None
      else case take 1 (filter (\<lambda>p. p_role p \<in> set [''admin'', ''author'']) tbl) of
             [p] \<Rightarrow> Some p
           | _ \<Rightarrow> None)"

text \<open>The sender of the row to save and its \<open>message_type\<close> (lines 381 to 407).\<close>

definition resolve_sender :: "tk_env \<Rightarrow> tk_message \<Rightarrow> consultation \<Rightarrow> profile list \<Rightarrow> string \<times> string" where
  "resolve_sender env message c profs =
     (if m_sender_type message = Some ''agent'' then
        (case c_consultant_id c of
           Some cid \<Rightarrow>
             if cid \<noteq> [] then (cid, ''consultant'')
             else (case find_admin env profs of
                     Some admin \<Rightarrow> (p_id admin, ''consultant'')
                   | None \<Rightarrow> (c_user_id c, ''system''))
         | None \<Rightarrow>
             (case find_admin env profs of
                Some admin \<Rightarrow> (p_id admin, ''consultant'')
              | None \<Rightarrow> (c_user_id c, ''system'')))
      else (c_user_id c, ''user''))"

text \<open>Lines 361 to 438: the lookup, the sender, the insert.\<close>

definition tk_save :: "tk_env \<Rightarrow> tk_message \<Rightarrow> nat \<Rightarrow> database \<Rightarrow> outcome" where
  "tk_save env message conv d =
     (case find_consultation env (decimal conv) (consultations d) of
        None \<Rightarrow>
          respond 404
            [(''error'', JStr ''Consultation not found''), (''conversation_id'', JNum (int conv))] d []
      | Some c \<Rightarrow>
          (let sender = resolve_sender env message c (profiles d)
           in case tk_insert_error env of
                Some msg \<Rightarrow>
                  respond 500
                    [(''error'', JStr ''Failed to save message''), (''details'', JStr msg)] d []
              | None \<Rightarrow>
                  respond 200
                    [(''success'', JBool True),
                     (''message_id'', JNum (int (tk_new_id env))),
                     (''consultation_id'', JNum (int (c_id c)))]
                    (d\<lparr>consultation_messages := consultation_messages d @
                         [\<lparr>cm_id = tk_new_id env,
                           cm_consultation_id = c_id c,
                           cm_user_id = fst sender,
                           cm_content = m_content message,
                           cm_message_type = snd sender,
                           cm_is_read = False\<rparr>]\<rparr>)
                    []))"

definition handler :: "tk_env \<Rightarrow> tk_request \<Rightarrow> database \<Rightarrow> outcome" where
  "handler env req d =
     (if r_method req \<noteq> ''POST''
      then respond 405 [(''error'', JStr ''Method not allowed'')] d []
      else
        (let webhook = r_body req
         in if w_event webhook \<noteq> Some ''message_created''
            then respond 200 [(''success'', JBool True), (''message'', JStr ''Event ignored'')] d []
            else
              (case w_message webhook of
                 None \<Rightarrow>
                   tk_internal_error ''Cannot read properties of undefined (reading 'message_type')'' d
               | Some message \<Rightarrow>
                   if m_message_type message = Some ''outgoing''
                   then respond 200
                          [(''success'', JBool True), (''message'', JStr ''Outgoing message ignored'')]
                          d []
                   else
                     (case w_conversation_id webhook of
                        None \<Rightarrow>
                          tk_internal_error ''Cannot read properties of undefined (reading 'id')'' d
                      | Some conv \<Rightarrow> tk_save env message conv d))))"

section \<open>Requests served one after the other\<close>

datatype request =
    ProcessQueue pq_env
  | ChatwootWebhook wh_env wh_body
  | ConsultationWebhook tk_env tk_request

fun serve :: "request \<Rightarrow> database \<Rightarrow> outcome" where
  "serve (ProcessQueue env) d = process_queue env d"
| "serve (ChatwootWebhook env b) d = chatwoot_webhook env b d"
| "serve (ConsultationWebhook env req) d = handler env req d"

fun serve_all :: "request list \<Rightarrow> database \<Rightarrow> database" where
  "serve_all [] d = d"
| "serve_all (r # rs) d = serve_all rs (out_db (serve r d))"

section \<open>Notions used to state the properties\<close>

text \<open>The chunks the delivery loop cuts, from index \<open>i\<close> on: \<open>messages.slice(i, i + CHUNK_SIZE)\<close>.\<close>

function chunks_from :: "nat \<Rightarrow> 'a list \<Rightarrow> 'a list list" where
  "chunks_from i messages =
     (if i < length messages
      then take CHUNK_SIZE (drop i messages) # chunks_from (i + CHUNK_SIZE) messages
      else [])"
  by pat_completeness auto
termination
  by (relation "measure (\<lambda>(i, messages). length messages - i)") (auto simp: CHUNK_SIZE_def)

declare chunks_from.simps [simp del]



text \<open>
  The tokens of the messages that stand at the position of a ticket reporting an
  unregistered device.
\<close>

definition unregistered_tokens :: "ticket list \<Rightarrow> push_message list \<Rightarrow> string list" where
  "unregistered_tokens tickets messages =
     map (\<lambda>p. pm_to (snd p)) (filter (\<lambda>p. is_device_not_registered (fst p)) (zip tickets messages))"

text \<open>The order of the states of a queue entry.\<close>

fun status_rank :: "status \<Rightarrow> nat" where
  "status_rank Pending = 0"
| "status_rank Processing = 1"
| "status_rank Sent = 2"







text \<open>
  An entry moves forward when it keeps its id and its status does not go back; a token row
  moves forward when it is unchanged or has only lost its \<open>is_active\<close> flag.
\<close>

definition entry_forward :: "queue_entry \<Rightarrow> queue_entry \<Rightarrow> bool" where
  "entry_forward n n' = (q_id n' = q_id n \<and> status_rank (q_status n) \<le> status_rank (q_status n'))"

definition queue_forward :: "queue_entry list \<Rightarrow> queue_entry list \<Rightarrow> bool" where
  "queue_forward q q' = list_all2 entry_forward q q'"

definition token_forward :: "device_token \<Rightarrow> device_token \<Rightarrow> bool" where
  "token_forward t t' = (t' = t \<or> t' = t\<lparr>t_is_active := False\<rparr>)"

definition tokens_forward :: "device_token list \<Rightarrow> device_token list \<Rightarrow> bool" where
  "tokens_forward tbl tbl' = list_all2 token_forward tbl tbl'"


text \<open>
  The push variant accepts an event when it passes the two filters (lines 38 to 46); the
  messages it then builds for the user named by the contact (lines 48 to 88).
\<close>

definition wh_accepts :: "wh_body \<Rightarrow> bool" where
  "wh_accepts b =
     (wb_event b = Some ''message_created'' \<and> wb_message_type b = Some ''incoming'' \<and>
      wb_sender_type b = Some ''User'')"

definition wh_messages :: "wh_env \<Rightarrow> wh_body \<Rightarrow> database \<Rightarrow> push_message list" where
  "wh_messages env b d =
     (case wb_contact_identifier b of
        None \<Rightarrow> []
      | Some userId \<Rightarrow>
          if userId = [] then []
          else map (chat_message env b userId) (select_active_tokens [userId] (profile_push_tokens d)))"



definition is_http_error :: "gateway_reply \<Rightarrow> bool" where
  "is_http_error reply = (case reply of HttpError code txt \<Rightarrow> True | _ \<Rightarrow> False)"

section \<open>Example data\<close>

definition ex_entry :: "nat \<Rightarrow> string \<Rightarrow> int \<Rightarrow> int \<Rightarrow> status \<Rightarrow> queue_entry" where
  "ex_entry i u p t s =
     \<lparr>q_id = i, q_user_id = u, q_title = ''Title'', q_body = ''Body'', q_data = None,
      q_priority = p, q_category = ''general'', q_status = s, q_scheduled_for = t,
      q_sent_at = None\<rparr>"

definition ex_token :: "string \<Rightarrow> string \<Rightarrow> bool \<Rightarrow> device_token" where
  "ex_token u tok a =
     \<lparr>t_user_id = u, t_expo_push_token = tok, t_device_name = ''phone'', t_is_active = a\<rparr>"

definition ex_db :: "queue_entry list \<Rightarrow> device_token list \<Rightarrow> database" where
  "ex_db q toks =
     \<lparr>notification_queue = q, profile_push_tokens = toks, consultations = [], profiles = [],
      consultation_messages = []\<rparr>"

definition ex_env :: "(pq_call \<Rightarrow> string option) \<Rightarrow> (nat \<Rightarrow> gateway_reply) \<Rightarrow> pq_env" where
  "ex_env err gw =
     \<lparr>pq_start = 1000, pq_query_now = 1000, pq_sent_now = 1500, pq_end = 1700,
      pq_db_error = err, pq_gateway = gw\<rparr>"

definition ex_queue2 :: "queue_entry list" where
  "ex_queue2 = [ex_entry 1 ''u1'' 5 0 Pending, ex_entry 2 ''u2'' 5 0 Pending]"

definition ex_tokens2 :: "device_token list" where
  "ex_tokens2 = [ex_token ''u1'' ''tokA'' True, ex_token ''u1'' ''tokB'' True, ex_token ''u2'' ''tokC'' False]"




definition ex_tokens_alice :: "device_token list" where
  "ex_tokens_alice = [ex_token ''alice'' ''tokA'' True, ex_token ''alice'' ''tokB'' True]"

definition no_error :: "pq_call \<Rightarrow> string option" where
  "no_error c = None"

definition ex_queue_three :: "queue_entry list" where
  "ex_queue_three =
     [ex_entry 1 ''alice'' 5 0 Pending, ex_entry 2 ''alice'' 5 0 Pending,
      ex_entry 3 ''bob'' 5 5000 Pending]"

definition fail_at :: "pq_call \<Rightarrow> pq_call \<Rightarrow> string option" where
  "fail_at c c' = (if c' = c then Some ''timeout'' else None)"

definition ex_wh_env :: "gateway_reply \<Rightarrow> (nat \<Rightarrow> bool) \<Rightarrow> wh_env" where
  "ex_wh_env reply fails =
     \<lparr>wh_start = 1000, wh_end = 1200, wh_iso_now = ''2024-01-01T00:00:00.000Z'',
      wh_tokens_error = None, wh_gateway = reply, wh_deactivate_fails = fails\<rparr>"

definition ex_wh_body :: "string \<Rightarrow> string \<Rightarrow> wh_body" where
  "ex_wh_body mtype stype =
     \<lparr>wb_event = Some ''message_created'', wb_message_type = Some mtype,
      wb_content = Some ''hola'', wb_sender_type = Some stype,
      wb_contact_identifier = Some ''alice''\<rparr>"


definition ex_ticket_unregistered :: ticket where
  "ex_ticket_unregistered =
     \<lparr>tk_status = ''error'', tk_details_error = Some ''DeviceNotRegistered''\<rparr>"





text \<open>The definitions of the handlers and the shared examples, for evaluation.\<close>

lemmas queue_eval =
  process_queue_def pq_after_fetch_def pq_after_tokens_def pq_deliver_and_finish_def
  prepare_messages_def select_pending_def claim_key_def BATCH_SIZE_def CHUNK_SIZE_def
  update_processing_def update_sent_def select_active_tokens_def deactivate_tokens_def
  group_by_user_def index_tokens_def build_messages_def user_messages_def dict_get_def
  make_message_def respond_def set_queue_def set_tokens_def initial_delivery_def
  send_chunk_def set_add_def is_device_not_registered_def
  deliver.simps collect_invalid.simps

lemmas webhook_eval =
  queue_eval
  chatwoot_webhook_def wh_send_def wh_fatal_def wh_done_def chat_message_def
  wh_reconcile.simps handler_def tk_save_def tk_internal_error_def decimal.simps digit_def
  find_consultation_def find_admin_def resolve_sender_def

lemmas example_data =
  ex_entry_def ex_token_def ex_db_def ex_env_def no_error_def fail_at_def
  ex_queue2_def ex_tokens2_def ex_queue_three_def ex_tokens_alice_def
  ex_wh_env_def ex_wh_body_def ex_ticket_unregistered_def

section \<open>Facts about the delivery loop\<close>

lemma gateway_calls_send_chunk:
  "gateway_calls (send_chunk reply chunk st) = gateway_calls st @ [chunk]"
  by (simp add: send_chunk_def Let_def split: gateway_reply.splits option.splits)

lemma gateway_calls_deliver:
  "gateway_calls (deliver gw messages i st) = gateway_calls st @ chunks_from i messages"
proof (induction gw messages i st rule: deliver.induct)
  case (1 gw messages i st)
  show ?case
  proof (cases "i < length messages")
    case True
    with "1" show ?thesis
      by (subst deliver.simps, subst chunks_from.simps) (simp add: gateway_calls_send_chunk)
  next
    case False
    then show ?thesis
      by (subst deliver.simps, subst chunks_from.simps) simp
  qed
qed

lemma concat_chunks_from: "concat (chunks_from i messages) = drop i messages"
proof (induction i messages rule: chunks_from.induct)
  case (1 i messages)
  show ?case
  proof (cases "i < length messages")
    case True
    have "take CHUNK_SIZE (drop i messages) @ drop (i + CHUNK_SIZE) messages = drop i messages"
      by (metis add.commute append_take_drop_id drop_drop)
    with True "1" show ?thesis
      by (subst chunks_from.simps) simp
  next
    case False
    then show ?thesis
      by (subst chunks_from.simps) simp
  qed
qed

lemma length_chunks_from: "c \<in> set (chunks_from i messages) \<Longrightarrow> length c \<le> CHUNK_SIZE \<and> c \<noteq> []"
proof (induction i messages rule: chunks_from.induct)
  case (1 i messages)
  show ?case
  proof (cases "i < length messages")
    case True
    from "1.prems" have "c \<in> set (take CHUNK_SIZE (drop i messages) # chunks_from (i + CHUNK_SIZE) messages)"
      using True by (subst (asm) chunks_from.simps) simp
    then consider "c = take CHUNK_SIZE (drop i messages)" | "c \<in> set (chunks_from (i + CHUNK_SIZE) messages)"
      by auto
    then show ?thesis
    proof cases
      case 1
      then show ?thesis using True by (simp add: CHUNK_SIZE_def)
    next
      case 2
      then show ?thesis using "1.IH" True by simp
    qed
  next
    case False
    with "1.prems" show ?thesis
      by (subst (asm) chunks_from.simps) simp
  qed
qed








lemma unregistered_tokens_Nil [simp]:
  "unregistered_tokens [] messages = []" "unregistered_tokens tickets [] = []"
  by (simp_all add: unregistered_tokens_def)

lemma unregistered_tokens_Cons [simp]:
  "unregistered_tokens (t # ts) (m # ms) =
     (if is_device_not_registered t then pm_to m # unregistered_tokens ts ms
      else unregistered_tokens ts ms)"
  by (simp add: unregistered_tokens_def)

lemma set_set_add [simp]: "set (set_add x xs) = insert x (set xs)"
  by (auto simp: set_add_def)










section \<open>Facts about the claim query\<close>


lemma select_pending_subset:
  "n \<in> set (select_pending now tbl) \<Longrightarrow>
     n \<in> set tbl \<and> q_status n = Pending \<and> q_scheduled_for n \<le> now"
  by (auto simp: select_pending_def dest!: in_set_takeD)



lemma select_pending_all:
  "length (select_pending now tbl) =
     min BATCH_SIZE (length (filter (\<lambda>n. q_status n = Pending \<and> q_scheduled_for n \<le> now) tbl))"
  by (simp add: select_pending_def min.commute)


section \<open>Facts about grouping and expansion\<close>





























section \<open>Facts about the state of the tables\<close>

lemma update_sent_after_processing:
  "update_sent t ids (update_processing ids q) = update_sent t ids q"
  by (simp add: update_sent_def update_processing_def)






lemma process_queue_early_response:
  assumes "pq_db_error env FetchPending = None"
    and "pq_db_error env MarkProcessing = None"
    and "pq_db_error env FetchTokens = None"
    and "ns = select_pending (pq_query_now env) (notification_queue d)"
    and "ns \<noteq> []"
    and "prepare_messages ns (profile_push_tokens d) = []"
  shows "out_response (process_queue env d) =
           \<lparr>status_code = 200,
            body = [(''ok'', JBool True), (''processed'', JNum (int (length ns))), (''sent'', JNum 0)]\<rparr>"
  using assms
  by (simp add: process_queue_def pq_after_fetch_def pq_after_tokens_def
        set_queue_def respond_def Let_def)


lemma queue_forward_refl: "queue_forward q q"
  by (simp add: queue_forward_def entry_forward_def list_all2_refl)

lemma queue_forward_trans:
  "queue_forward q1 q2 \<Longrightarrow> queue_forward q2 q3 \<Longrightarrow> queue_forward q1 q3"
proof -
  have "entry_forward a b \<Longrightarrow> entry_forward b c \<Longrightarrow> entry_forward a c" for a b c
    by (auto simp: entry_forward_def)
  then show "queue_forward q1 q2 \<Longrightarrow> queue_forward q2 q3 \<Longrightarrow> queue_forward q1 q3"
    unfolding queue_forward_def by (rule list_all2_trans)
qed

lemma queue_forward_ids: "queue_forward q q' \<Longrightarrow> map q_id q' = map q_id q"
  unfolding queue_forward_def
  by (induction rule: list_all2_induct) (simp_all add: entry_forward_def)

lemma status_rank_le_Sent: "status_rank s \<le> 2"
  by (cases s) simp_all

lemma queue_forward_update_sent: "queue_forward q (update_sent t ids q)"
  by (induction q)
     (simp_all add: queue_forward_def entry_forward_def update_sent_def status_rank_le_Sent)

lemma queue_forward_update_processing:
  assumes "\<forall>n \<in> set q. q_id n \<in> set ids \<longrightarrow> q_status n = Pending"
  shows "queue_forward q (update_processing ids q)"
  using assms
  by (induction q) (simp_all add: queue_forward_def entry_forward_def update_processing_def)

lemma claimed_rows_pending:
  assumes "distinct (map q_id q)" and "n \<in> set q"
    and "q_id n \<in> set (map q_id (select_pending now q))"
  shows "q_status n = Pending"
proof -
  from assms(3) obtain n' where n': "n' \<in> set (select_pending now q)" "q_id n' = q_id n"
    by auto
  then have "n' \<in> set q" "q_status n' = Pending"
    using select_pending_subset by blast+
  moreover from assms(1) have "inj_on q_id (set q)"
    by (simp add: distinct_map)
  ultimately show ?thesis
    using assms(2) n'(2) by (auto dest: inj_onD)
qed

lemma queue_forward_claim:
  "distinct (map q_id q) \<Longrightarrow>
     queue_forward q (update_processing (map q_id (select_pending now q)) q)"
  by (rule queue_forward_update_processing) (blast intro: claimed_rows_pending)

lemma process_queue_queue_cases:
  "notification_queue (out_db (process_queue env d)) = notification_queue d \<or>
   notification_queue (out_db (process_queue env d)) =
     update_processing (map q_id (select_pending (pq_query_now env) (notification_queue d)))
       (notification_queue d) \<or>
   notification_queue (out_db (process_queue env d)) =
     update_sent (pq_sent_now env)
       (map q_id (select_pending (pq_query_now env) (notification_queue d)))
       (notification_queue d)"
  by (simp add: process_queue_def pq_after_fetch_def pq_after_tokens_def pq_deliver_and_finish_def
        set_queue_def set_tokens_def respond_def Let_def update_sent_after_processing
        split: option.splits)

lemma process_queue_queue_forward:
  assumes "distinct (map q_id (notification_queue d))"
  shows "queue_forward (notification_queue d) (notification_queue (out_db (process_queue env d)))"
  using process_queue_queue_cases [of env d] queue_forward_claim [OF assms]
    queue_forward_update_sent queue_forward_refl
  by metis

lemma tokens_forward_refl: "tokens_forward tbl tbl"
  by (simp add: tokens_forward_def token_forward_def list_all2_refl)

lemma token_forward_trans:
  "token_forward t1 t2 \<Longrightarrow> token_forward t2 t3 \<Longrightarrow> token_forward t1 t3"
  by (auto simp: token_forward_def)

lemma tokens_forward_trans:
  "tokens_forward t1 t2 \<Longrightarrow> tokens_forward t2 t3 \<Longrightarrow> tokens_forward t1 t3"
  unfolding tokens_forward_def
  using token_forward_trans by (rule list_all2_trans)

lemma tokens_forward_deactivate: "tokens_forward tbl (deactivate_tokens toks tbl)"
  by (induction tbl) (simp_all add: tokens_forward_def token_forward_def deactivate_tokens_def)

lemma process_queue_tokens_cases:
  "profile_push_tokens (out_db (process_queue env d)) = profile_push_tokens d \<or>
   (\<exists>toks. profile_push_tokens (out_db (process_queue env d)) =
      deactivate_tokens toks (profile_push_tokens d))"
  by (simp add: process_queue_def pq_after_fetch_def pq_after_tokens_def pq_deliver_and_finish_def
        set_queue_def set_tokens_def respond_def Let_def
        split: option.splits) blast

lemma process_queue_tokens_forward:
  "tokens_forward (profile_push_tokens d) (profile_push_tokens (out_db (process_queue env d)))"
  using process_queue_tokens_cases [of env d] tokens_forward_deactivate tokens_forward_refl
  by metis






section \<open>Facts about the webhook handlers\<close>

lemma unregistered_tokens_iff:
  "x \<in> set (unregistered_tokens tickets messages) \<longleftrightarrow>
     (\<exists>j. j < length tickets \<and> j < length messages \<and>
          is_device_not_registered (tickets ! j) \<and> x = pm_to (messages ! j))"
  by (auto simp: unregistered_tokens_def in_set_zip image_iff)

lemma deactivate_tokens_Nil [simp]: "deactivate_tokens [] tbl = tbl"
  by (simp add: deactivate_tokens_def)














lemma chatwoot_webhook_sends:
  assumes "wh_accepts b" and "wh_tokens_error env = None" and "wh_messages env b d \<noteq> []"
  shows "\<exists>userId. wb_contact_identifier b = Some userId \<and> userId \<noteq> [] \<and>
           select_active_tokens [userId] (profile_push_tokens d) \<noteq> [] \<and>
           wh_messages env b d =
             map (chat_message env b userId) (select_active_tokens [userId] (profile_push_tokens d)) \<and>
           chatwoot_webhook env b d =
             wh_send env b userId (select_active_tokens [userId] (profile_push_tokens d)) d"
  using assms
  by (auto simp: wh_accepts_def wh_messages_def chatwoot_webhook_def Let_def
        split: option.splits if_splits)


lemma wh_reconcile_forward:
  "tokens_forward tbl (fst (wh_reconcile fails tickets messages i tbl))"
proof (induction fails tickets messages i tbl rule: wh_reconcile.induct)
  case (1 fails tickets messages i tbl)
  show ?case
  proof (cases "i < length tickets")
    case False
    then show ?thesis
      by (subst wh_reconcile.simps) (simp add: tokens_forward_refl)
  next
    case inT: True
    show ?thesis
    proof (cases "is_device_not_registered (tickets ! i)")
      case False
      with inT "1.IH"(2) show ?thesis
        by (subst wh_reconcile.simps) simp
    next
      case dnr: True
      show ?thesis
      proof (cases "i < length messages")
        case False
        with inT dnr show ?thesis
          by (subst wh_reconcile.simps) (simp add: tokens_forward_refl)
      next
        case True
        let ?tbl = "if fails i then tbl else deactivate_tokens [pm_to (messages ! i)] tbl"
        have "tokens_forward tbl ?tbl"
          by (simp add: tokens_forward_refl tokens_forward_deactivate)
        moreover have "tokens_forward ?tbl (fst (wh_reconcile fails tickets messages (i + 1) ?tbl))"
          using "1.IH"(1) [OF inT dnr True] .
        ultimately have "tokens_forward tbl (fst (wh_reconcile fails tickets messages (i + 1) ?tbl))"
          by (rule tokens_forward_trans)
        with inT dnr True show ?thesis
          by (subst wh_reconcile.simps) simp
      qed
    qed
  qed
qed

lemma chatwoot_webhook_queue:
  "notification_queue (out_db (chatwoot_webhook env b d)) = notification_queue d"
  by (simp add: chatwoot_webhook_def wh_send_def wh_fatal_def wh_done_def respond_def
        set_tokens_def Let_def
        split: option.splits gateway_reply.splits prod.splits)

lemma chatwoot_webhook_tokens_cases:
  "profile_push_tokens (out_db (chatwoot_webhook env b d)) = profile_push_tokens d \<or>
   (\<exists>tickets messages.
      profile_push_tokens (out_db (chatwoot_webhook env b d)) =
        fst (wh_reconcile (wh_deactivate_fails env) tickets messages 0 (profile_push_tokens d)))"
  by (auto simp: chatwoot_webhook_def wh_send_def wh_fatal_def wh_done_def respond_def
        set_tokens_def Let_def
        split: option.splits gateway_reply.splits prod.splits)
     (metis fst_conv)+

lemma chatwoot_webhook_tokens_forward:
  "tokens_forward (profile_push_tokens d) (profile_push_tokens (out_db (chatwoot_webhook env b d)))"
  using chatwoot_webhook_tokens_cases [of env b d] wh_reconcile_forward tokens_forward_refl
  by metis

lemma handler_tables:
  "notification_queue (out_db (handler env req d)) = notification_queue d \<and>
   profile_push_tokens (out_db (handler env req d)) = profile_push_tokens d"
  by (simp add: handler_def tk_save_def tk_internal_error_def respond_def Let_def
        split: option.splits)

lemma serve_queue_forward:
  "distinct (map q_id (notification_queue d)) \<Longrightarrow>
     queue_forward (notification_queue d) (notification_queue (out_db (serve r d)))"
  by (cases r)
     (simp_all add: process_queue_queue_forward chatwoot_webhook_queue handler_tables queue_forward_refl)

lemma serve_tokens_forward:
  "tokens_forward (profile_push_tokens d) (profile_push_tokens (out_db (serve r d)))"
  by (cases r)
     (simp_all add: process_queue_tokens_forward chatwoot_webhook_tokens_forward handler_tables
        tokens_forward_refl)

lemma serve_all_queue_forward:
  "distinct (map q_id (notification_queue d)) \<Longrightarrow>
     queue_forward (notification_queue d) (notification_queue (serve_all rs d))"
proof (induction rs arbitrary: d)
  case Nil
  then show ?case by (simp add: queue_forward_refl)
next
  case (Cons r rs)
  have step: "queue_forward (notification_queue d) (notification_queue (out_db (serve r d)))"
    using Cons.prems by (rule serve_queue_forward)
  then have "distinct (map q_id (notification_queue (out_db (serve r d))))"
    using Cons.prems by (simp add: queue_forward_ids)
  then have "queue_forward (notification_queue (out_db (serve r d)))
               (notification_queue (serve_all rs (out_db (serve r d))))"
    by (rule Cons.IH)
  with step show ?case
    by (simp add: queue_forward_trans)
qed

lemma serve_all_tokens_forward:
  "tokens_forward (profile_push_tokens d) (profile_push_tokens (serve_all rs d))"
proof (induction rs arbitrary: d)
  case Nil
  then show ?case by (simp add: tokens_forward_refl)
next
  case (Cons r rs)
  from serve_tokens_forward [of d r] Cons.IH [of "out_db (serve r d)"]
  show ?case
    by (simp add: tokens_forward_trans)
qed






section \<open>Chunking (C6)\<close>

text \<open>
  C6.  For every message list, the chunks the delivery loop submits to the gateway, put
  one after the other in the order they are sent, are the message list itself, and no
  chunk holds more than \<open>CHUNK_SIZE\<close> messages, which is 100.
\<close>

theorem chunk_split_roundtrip:
  "concat (gateway_calls (deliver gw messages 0 initial_delivery)) = messages \<and>
   (\<forall>chunk \<in> set (gateway_calls (deliver gw messages 0 initial_delivery)). length chunk \<le> CHUNK_SIZE) \<and>
   CHUNK_SIZE = 100"
proof -
  have "gateway_calls (deliver gw messages 0 initial_delivery) = chunks_from 0 messages"
    by (simp add: gateway_calls_deliver initial_delivery_def)
  then show ?thesis
    using length_chunks_from [of _ 0 messages]
    by (auto simp: concat_chunks_from CHUNK_SIZE_def)
qed

theorem chunk_split_roundtrip_witness:
  "concat (gateway_calls (deliver (\<lambda>k. Reply None) (prepare_messages ex_queue2 ex_tokens2) 0 initial_delivery))
     = prepare_messages ex_queue2 ex_tokens2 \<and>
   prepare_messages ex_queue2 ex_tokens2
     \<in> set (gateway_calls (deliver (\<lambda>k. Reply None) (prepare_messages ex_queue2 ex_tokens2) 0 initial_delivery)) \<and>
   length (prepare_messages ex_queue2 ex_tokens2) \<le> CHUNK_SIZE \<and>
   length (prepare_messages ex_queue2 ex_tokens2) = 2"
proof -
  have mem: "prepare_messages ex_queue2 ex_tokens2
     \<in> set (gateway_calls (deliver (\<lambda>k. Reply None) (prepare_messages ex_queue2 ex_tokens2) 0 initial_delivery))"
    by (simp add: queue_eval chunks_from.simps example_data)
  have len: "length (prepare_messages ex_queue2 ex_tokens2) = 2"
    by (simp add: queue_eval chunks_from.simps example_data)
  from chunk_split_roundtrip [of "\<lambda>k. Reply None" "prepare_messages ex_queue2 ex_tokens2"] mem len
  show ?thesis by blast
qed

section \<open>Partial failure of the delivery (C5)\<close>



text \<open>
  The example of three chunks of which the second gets a status 500: 250 messages, the
  chunks of 100 and 50 messages count, the second chunk does not.
\<close>

lemma second_of_three_chunks_fails:
  "totalSent (deliver (\<lambda>k. if k = 1 then HttpError 500 ''down'' else Reply None)
                (replicate 250 m) 0 initial_delivery) = 150 \<and>
   map length (gateway_calls (deliver (\<lambda>k. if k = 1 then HttpError 500 ''down'' else Reply None)
                (replicate 250 m) 0 initial_delivery)) = [100, 100, 50]"
  by (simp add: deliver.simps initial_delivery_def send_chunk_def CHUNK_SIZE_def)

section \<open>The claim query (C7)\<close>



section \<open>Expansion into push messages (C3)\<close>




section \<open>Finalization (C1)\<close>




section \<open>Failure of the closing update (C10)\<close>



section \<open>Monotonic states (C9)\<close>

text \<open>
  C9, as amended.  When the ids of the queue are unique and requests are served one after
  the other, not overlapping, every entry keeps its id and its status never goes back
  along pending, processing, sent: this holds across any sequence of requests to the three
  handlers and for each of the two updates of a cycle.  A token row is only ever left as
  it is or written inactive, on any sequence of requests.
\<close>

theorem status_moves_forward:
  assumes "distinct (map q_id (notification_queue d))"
  shows "queue_forward (notification_queue d) (notification_queue (serve_all rs d)) \<and>
         tokens_forward (profile_push_tokens d) (profile_push_tokens (serve_all rs d)) \<and>
         queue_forward (notification_queue d)
           (update_processing (map q_id (select_pending now (notification_queue d)))
              (notification_queue d)) \<and>
         queue_forward
           (update_processing (map q_id (select_pending now (notification_queue d)))
              (notification_queue d))
           (update_sent t (map q_id (select_pending now (notification_queue d)))
              (update_processing (map q_id (select_pending now (notification_queue d)))
                 (notification_queue d)))"
  using assms
  by (simp add: serve_all_queue_forward serve_all_tokens_forward queue_forward_claim
        queue_forward_update_sent)

theorem status_moves_forward_witness:
  "distinct (map q_id (notification_queue (ex_db ex_queue_three ex_tokens_alice))) \<and>
   map q_status (notification_queue (ex_db ex_queue_three ex_tokens_alice)) =
     [Pending, Pending, Pending] \<and>
   map q_status (notification_queue
     (serve_all [ProcessQueue (ex_env no_error (\<lambda>k. Reply (Some [ex_ticket_unregistered]))),
                 ChatwootWebhook (ex_wh_env (Reply None) (\<lambda>i. False)) (ex_wh_body ''incoming'' ''User'')]
        (ex_db ex_queue_three ex_tokens_alice))) = [Sent, Sent, Pending] \<and>
   map t_is_active (profile_push_tokens
     (serve_all [ProcessQueue (ex_env no_error (\<lambda>k. Reply (Some [ex_ticket_unregistered]))),
                 ChatwootWebhook (ex_wh_env (Reply None) (\<lambda>i. False)) (ex_wh_body ''incoming'' ''User'')]
        (ex_db ex_queue_three ex_tokens_alice))) = [False, True] \<and>
   queue_forward (notification_queue (ex_db ex_queue_three ex_tokens_alice))
     (notification_queue
       (serve_all [ProcessQueue (ex_env no_error (\<lambda>k. Reply (Some [ex_ticket_unregistered]))),
                 ChatwootWebhook (ex_wh_env (Reply None) (\<lambda>i. False)) (ex_wh_body ''incoming'' ''User'')]
        (ex_db ex_queue_three ex_tokens_alice))) \<and>
   tokens_forward (profile_push_tokens (ex_db ex_queue_three ex_tokens_alice))
     (profile_push_tokens
       (serve_all [ProcessQueue (ex_env no_error (\<lambda>k. Reply (Some [ex_ticket_unregistered]))),
                 ChatwootWebhook (ex_wh_env (Reply None) (\<lambda>i. False)) (ex_wh_body ''incoming'' ''User'')]
        (ex_db ex_queue_three ex_tokens_alice)))"
proof -
  let ?d = "ex_db ex_queue_three ex_tokens_alice"
  let ?rs = "[ProcessQueue (ex_env no_error (\<lambda>k. Reply (Some [ex_ticket_unregistered]))),
              ChatwootWebhook (ex_wh_env (Reply None) (\<lambda>i. False)) (ex_wh_body ''incoming'' ''User'')]"
  have dist: "distinct (map q_id (notification_queue ?d))"
    by (simp add: example_data)
  have before: "map q_status (notification_queue ?d) = [Pending, Pending, Pending]"
    by (simp add: example_data)
  have after: "map q_status (notification_queue (serve_all ?rs ?d)) = [Sent, Sent, Pending]"
    by (simp add: webhook_eval example_data)
  have toks: "map t_is_active (profile_push_tokens (serve_all ?rs ?d)) = [False, True]"
    by (simp add: webhook_eval example_data)
  from status_moves_forward [OF dist, of ?rs] dist before after toks
  show ?thesis by blast
qed

text \<open>
  The claim as stated fails when two cycles overlap.  Both requests get the same answer
  to their first query, the entries 1 and 2.  The first request then runs to its end and
  leaves the two entries \<open>sent\<close>.  The second request resumes with the answer it got
  (\<open>pq_after_fetch\<close> is the handler from that point on): its update writes
  \<open>processing\<close> over \<open>sent\<close>, and as its token query then fails the entries stay so.
\<close>

theorem overlapping_cycles_counterexample:
  "distinct (map q_id (notification_queue (ex_db ex_queue2 ex_tokens2))) \<and>
   map q_id (select_pending (pq_query_now (ex_env (fail_at FetchTokens) (\<lambda>k. Reply None)))
               (notification_queue (ex_db ex_queue2 ex_tokens2))) = [1, 2] \<and>
   map q_status (notification_queue
     (out_db (process_queue (ex_env no_error (\<lambda>k. Reply None)) (ex_db ex_queue2 ex_tokens2)))) =
     [Sent, Sent] \<and>
   map q_status (notification_queue
     (out_db (pq_after_fetch (ex_env (fail_at FetchTokens) (\<lambda>k. Reply None))
                (select_pending (pq_query_now (ex_env (fail_at FetchTokens) (\<lambda>k. Reply None)))
                   (notification_queue (ex_db ex_queue2 ex_tokens2)))
                (out_db (process_queue (ex_env no_error (\<lambda>k. Reply None))
                           (ex_db ex_queue2 ex_tokens2)))))) =
     [Processing, Processing]"
  by (simp add: queue_eval example_data)

section \<open>Deactivation of unregistered tokens (C2)\<close>




section \<open>Filtered webhook events (C4)\<close>




section \<open>Duration in the responses (C8)\<close>

text \<open>
  C8, as amended.  A response of the push variant carries \<open>duration_ms\<close> exactly when
  the request reached the call of the gateway and the gateway did not answer with a status
  that is not ok: these are the final success and the responses of the \<open>catch\<close>.  The
  responses to ignored events, to a missing user identifier, to a failed token query, to a
  user without active tokens and to a gateway error carry none, and no response of the
  consultation variant does.
\<close>

theorem duration_reported:
  "(has_key ''duration_ms'' (out_response (chatwoot_webhook wenv b d)) \<longleftrightarrow>
      wh_accepts b \<and> wh_tokens_error wenv = None \<and> wh_messages wenv b d \<noteq> [] \<and>
      \<not> is_http_error (wh_gateway wenv)) \<and>
   \<not> has_key ''duration_ms'' (out_response (handler tenv req d))"
proof
  show "\<not> has_key ''duration_ms'' (out_response (handler tenv req d))"
    by (simp add: handler_def tk_save_def tk_internal_error_def respond_def has_key_def
        Let_def split: option.splits)
  show "has_key ''duration_ms'' (out_response (chatwoot_webhook wenv b d)) \<longleftrightarrow>
      wh_accepts b \<and> wh_tokens_error wenv = None \<and> wh_messages wenv b d \<noteq> [] \<and>
      \<not> is_http_error (wh_gateway wenv)"
  proof (cases "wh_accepts b \<and> wh_tokens_error wenv = None \<and> wh_messages wenv b d \<noteq> []")
    case True
    then obtain userId where
      run: "chatwoot_webhook wenv b d =
             wh_send wenv b userId (select_active_tokens [userId] (profile_push_tokens d)) d"
      using chatwoot_webhook_sends [of b wenv d] by blast
    with True show ?thesis
      by (simp add: wh_send_def wh_fatal_def wh_done_def respond_def has_key_def is_http_error_def
            Let_def split: gateway_reply.splits option.splits prod.splits)
  next
    case False
    then show ?thesis
      by (auto simp: chatwoot_webhook_def wh_accepts_def wh_messages_def respond_def has_key_def
            Let_def split: option.splits if_splits)
  qed
qed

theorem duration_reported_witness:
  "has_key ''duration_ms''
     (out_response (chatwoot_webhook (ex_wh_env (Reply None) (\<lambda>i. False))
                      (ex_wh_body ''incoming'' ''User'') (ex_db [] ex_tokens_alice))) \<and>
   out_response (chatwoot_webhook (ex_wh_env (Reply None) (\<lambda>i. False))
                      (ex_wh_body ''incoming'' ''User'') (ex_db [] ex_tokens_alice)) =
     \<lparr>status_code = 200,
      body = [(''ok'', JBool True), (''sent'', JNum 2), (''duration_ms'', JNum 200)]\<rparr>"
proof -
  let ?wenv = "ex_wh_env (Reply None) (\<lambda>i. False)"
  let ?b = "ex_wh_body ''incoming'' ''User''"
  let ?d = "ex_db [] ex_tokens_alice"
  have "wh_accepts ?b \<and> wh_tokens_error ?wenv = None \<and> wh_messages ?wenv ?b ?d \<noteq> [] \<and>
      \<not> is_http_error (wh_gateway ?wenv)"
    by (simp add: webhook_eval example_data has_key_def is_http_error_def wh_accepts_def
          wh_messages_def)
  with duration_reported [of ?wenv ?b ?d]
  have "has_key ''duration_ms'' (out_response (chatwoot_webhook ?wenv ?b ?d))"
    by blast
  moreover have "out_response (chatwoot_webhook ?wenv ?b ?d) =
     \<lparr>status_code = 200,
      body = [(''ok'', JBool True), (''sent'', JNum 2), (''duration_ms'', JNum 200)]\<rparr>"
    by (simp add: webhook_eval example_data has_key_def is_http_error_def wh_accepts_def
          wh_messages_def)
  ultimately show ?thesis by blast
qed

text \<open>
  The claim as stated fails for the acknowledgment of an ignored event and for the
  response to a gateway error: neither body has the key \<open>duration_ms\<close>.
\<close>

theorem duration_missing_counterexample:
  "out_response (chatwoot_webhook (ex_wh_env (Reply None) (\<lambda>i. False))
                   (ex_wh_body ''outgoing'' ''User'') (ex_db [] ex_tokens_alice)) =
     \<lparr>status_code = 200, body = [(''ok'', JBool True), (''message'', JStr ''Event ignored'')]\<rparr> \<and>
   \<not> has_key ''duration_ms''
       (out_response (chatwoot_webhook (ex_wh_env (Reply None) (\<lambda>i. False))
                        (ex_wh_body ''outgoing'' ''User'') (ex_db [] ex_tokens_alice))) \<and>
   out_response (chatwoot_webhook (ex_wh_env (HttpError 500 ''down'') (\<lambda>i. False))
                   (ex_wh_body ''incoming'' ''User'') (ex_db [] ex_tokens_alice)) =
     \<lparr>status_code = 500, body = [(''error'', JStr ''Expo API error''), (''details'', JStr ''down'')]\<rparr> \<and>
   \<not> has_key ''duration_ms''
       (out_response (chatwoot_webhook (ex_wh_env (HttpError 500 ''down'') (\<lambda>i. False))
                        (ex_wh_body ''incoming'' ''User'') (ex_db [] ex_tokens_alice)))"
  by (simp add: webhook_eval example_data has_key_def is_http_error_def wh_accepts_def
          wh_messages_def)

end
